theory Spec2Isabelle
  imports Complex_Main
begin

section \<open>The Zun provider of virtual-kubelet: providers/openstack/zun.go\<close>

text \<open>
  The provider translates Kubernetes pods into OpenStack Zun capsules and back. The
  theory embeds the translation functions and the lifecycle operations of the source
  file. Go values are modelled as follows.
  \<^item> A Go \<^verbatim>\<open>string\<close> is a \<^typ>\<open>string\<close>; a \<^verbatim>\<open>float64\<close> is a \<^typ>\<open>real\<close> (rounding is not
    modelled); an \<^verbatim>\<open>int\<close> or \<^verbatim>\<open>int64\<close> is an \<^typ>\<open>int\<close>, the range written out where the
    source converts into it.
  \<^item> A \<^verbatim>\<open>map[string]T\<close> that is only looked up is a map \<open>string \<rightharpoonup> T\<close>; a map that is
    ranged over is an association list giving the order of the visit, which Go leaves
    unspecified. A nil map or slice that the source tests for is an \<open>option\<close>.
  \<^item> A pointer that may be nil is an \<open>option\<close>.
  \<^item> A returned \<^verbatim>\<open>error\<close> is a value of \<open>error\<close>; a pair \<^verbatim>\<open>(T, error)\<close> is \<open>error + T\<close>.
    A panic is the error \<open>Panic\<close>, which no \<^verbatim>\<open>err != nil\<close> test catches.
  \<^item> A \<^verbatim>\<open>time.Time\<close> or \<^verbatim>\<open>metav1.Time\<close> is an instant, an \<^typ>\<open>int\<close>.
\<close>

subsection \<open>Errors\<close>

datatype error =
    ErrDefault404          \<comment> \<open>the remote API answers "not found"\<close>
  | ErrRemote string       \<comment> \<open>any other failure of a remote call\<close>
  | ErrSyntax              \<comment> \<open>\<^verbatim>\<open>strconv.ErrSyntax\<close>\<close>
  | ErrRange               \<comment> \<open>\<^verbatim>\<open>strconv.ErrRange\<close>\<close>
  | Panic string

type_synonym time = int

subsection \<open>The Kubernetes side: container states and pod phases\<close>

record ContainerStateWaiting =
  csw_Reason :: string
  csw_Message :: string

record ContainerStateRunning =
  csr_StartedAt :: time

record ContainerStateTerminated =
  cst_ExitCode :: int
  cst_Reason :: string
  cst_Message :: string
  cst_StartedAt :: time
  cst_FinishedAt :: time

text \<open>
  \<^verbatim>\<open>v1.ContainerState\<close> holds three pointers; a field the composite literal leaves out is
  nil.
\<close>

record ContainerState =
  Waiting :: "ContainerStateWaiting option"
  Running :: "ContainerStateRunning option"
  Terminated :: "ContainerStateTerminated option"

datatype PodPhase = PodPending | PodRunning | PodSucceeded | PodFailed | PodUnknown

subsection \<open>The Zun side: containers of a capsule\<close>

text \<open>
  \<^verbatim>\<open>capsules.Container\<close> is declared in the gophercloud library, not in the source file.
  The two paths of the source disagree on the types of two of its fields: the create path
  stores a string slice in \<^verbatim>\<open>Command\<close> and a float in \<^verbatim>\<open>Memory\<close>, the read path reads
  \<^verbatim>\<open>Command\<close> as one string and does not read \<^verbatim>\<open>Memory\<close>. The types of these two fields are
  therefore parameters of the record.
\<close>

record ('cmd, 'mem) capsules_Container =
  cc_Name :: string
  cc_Image :: string
  cc_Command :: 'cmd
  cc_WorkDir :: string
  cc_ImagePullPolicy :: string
  cc_Environment :: "string \<rightharpoonup> string"
  cc_CPU :: real
  cc_Memory :: 'mem
  cc_Status :: string
  cc_StatusDetail :: string
  cc_ContainerID :: string
  cc_CreatedAt :: time
  cc_UpdatedAt :: time

subsection \<open>The state mappers\<close>

definition zunContainerStausToContainerStatus ::
  "('cmd, 'mem) capsules_Container \<Rightarrow> ContainerState" where
  "zunContainerStausToContainerStatus cs =
     (if cc_Status cs = ''Running'' \<or> cc_Status cs = ''Stopped'' then
        \<lparr>Waiting = None,
         Running = Some \<lparr>csr_StartedAt = cc_CreatedAt cs\<rparr>,
         Terminated = None\<rparr>
      else if cc_Status cs = ''Error'' \<or> cc_Status cs = ''Dead'' then
        \<lparr>Waiting = None,
         Running = None,
         Terminated = Some \<lparr>cst_ExitCode = 0,
                             cst_Reason = cc_Status cs,
                             cst_Message = cc_StatusDetail cs,
                             cst_StartedAt = cc_CreatedAt cs,
                             cst_FinishedAt = cc_UpdatedAt cs\<rparr>\<rparr>
      else
        \<lparr>Waiting = Some \<lparr>csw_Reason = cc_Status cs, csw_Message = cc_StatusDetail cs\<rparr>,
         Running = None,
         Terminated = None\<rparr>)"

definition zunStatusToPodPhase :: "string \<Rightarrow> PodPhase" where
  "zunStatusToPodPhase status =
     (if status = ''Running'' then PodRunning
      else if status = ''Stopped'' then PodSucceeded
      else if status = ''Error'' then PodFailed
      else if status = ''Dead'' then PodFailed
      else if status = ''Creating'' then PodPending
      else if status = ''Created'' then PodPending
      else if status = ''Restarting'' then PodPending
      else if status = ''Rebuilding'' then PodPending
      else if status = ''Paused'' then PodPending
      else if status = ''Deleting'' then PodPending
      else if status = ''Deleted'' then PodPending
      else PodUnknown)"

definition zunCapStatusToPodPhase :: "string \<Rightarrow> PodPhase" where
  "zunCapStatusToPodPhase status =
     (if status = ''Running'' then PodRunning
      else if status = ''Succeeded'' then PodSucceeded
      else if status = ''Failed'' then PodFailed
      else if status = ''Pending'' then PodPending
      else PodUnknown)"

subsection \<open>Strings and numbers of the Go library\<close>

text \<open>\<^verbatim>\<open>fmt.Sprintf("%d", k)\<close>: the decimal digits of an integer, with a minus sign.\<close>

definition digit_char :: "nat \<Rightarrow> char" where
  "digit_char n = ''0123456789'' ! (n mod 10)"

function string_of_nat :: "nat \<Rightarrow> string" where
  "string_of_nat n =
     (if n < 10 then [digit_char n] else string_of_nat (n div 10) @ [digit_char (n mod 10)])"
  by pat_completeness auto
termination
  by (relation "measure id") auto

declare string_of_nat.simps [simp del]

definition Sprintf_d :: "int \<Rightarrow> string" where
  "Sprintf_d k = (if k < 0 then CHR ''-'' # string_of_nat (nat (- k)) else string_of_nat (nat k))"

definition digit_val :: "char \<Rightarrow> nat option" where
  "digit_val c =
     map_of [(CHR ''0'', 0), (CHR ''1'', 1), (CHR ''2'', 2), (CHR ''3'', 3), (CHR ''4'', 4),
             (CHR ''5'', 5), (CHR ''6'', 6), (CHR ''7'', 7), (CHR ''8'', 8), (CHR ''9'', 9)] c"

definition is_digit :: "char \<Rightarrow> bool" where
  "is_digit c = (digit_val c \<noteq> None)"

definition digits_value :: "string \<Rightarrow> nat" where
  "digits_value ds = foldl (\<lambda>a c. 10 * a + (case digit_val c of Some d \<Rightarrow> d | None \<Rightarrow> 0)) 0 ds"

text \<open>A string of one or more decimal digits, and nothing else.\<close>

definition parse_digits :: "string \<Rightarrow> nat option" where
  "parse_digits s = (if s \<noteq> [] \<and> list_all is_digit s then Some (digits_value s) else None)"

text \<open>An optional sign, split off: the flag says whether the sign was a minus.\<close>

definition split_sign :: "string \<Rightarrow> bool \<times> string" where
  "split_sign s =
     (case s of
        [] \<Rightarrow> (False, [])
      | c # r \<Rightarrow> if c = CHR ''-'' then (True, r) else if c = CHR ''+'' then (False, r)
                 else (False, s))"

text \<open>
  \<^verbatim>\<open>strconv.Atoi\<close>: the value and the error. On a syntax error the value is 0, on a range
  error it is the nearest bound of the 64-bit \<^verbatim>\<open>int\<close>.
\<close>

definition Atoi :: "string \<Rightarrow> int \<times> error option" where
  "Atoi s =
     (let (neg, r) = split_sign s in
      case parse_digits r of
        None \<Rightarrow> (0, Some ErrSyntax)
      | Some n \<Rightarrow>
          if neg then (if int n > 2 ^ 63 then (- (2 ^ 63), Some ErrRange) else (- int n, None))
          else (if int n > 2 ^ 63 - 1 then (2 ^ 63 - 1, Some ErrRange) else (int n, None)))"

text \<open>Go's \<^verbatim>\<open>/\<close> on integers truncates toward zero.\<close>

definition go_div :: "int \<Rightarrow> int \<Rightarrow> int" where
  "go_div a b = sgn a * sgn b * (\<bar>a\<bar> div \<bar>b\<bar>)"

text \<open>
  \<^verbatim>\<open>int64(f)\<close> for a float: the fraction is dropped. A value outside the range of
  \<^verbatim>\<open>int64\<close> gives an implementation-dependent result, on amd64 the least \<^verbatim>\<open>int64\<close>.
\<close>

definition int64_of_float :: "real \<Rightarrow> int" where
  "int64_of_float f =
     (let t = (if 0 \<le> f then \<lfloor>f\<rfloor> else \<lceil>f\<rceil>) in
      if - (2 ^ 63) \<le> t \<and> t < 2 ^ 63 then t else - (2 ^ 63))"

text \<open>
  \<^verbatim>\<open>fmt.Sprintf("%g", float64(k))\<close> for an integer \<open>k\<close> of magnitude at most \<open>2 ^ 53\<close>,
  which \<^verbatim>\<open>float64\<close> holds exactly: the digits of \<open>k\<close> below \<open>10 ^ 6\<close>, and the exponent
  form from there on (\<^verbatim>\<open>1e+06\<close>, \<^verbatim>\<open>1.5e+06\<close>).
\<close>

definition strip_zeros :: "string \<Rightarrow> string" where
  "strip_zeros ds = rev (dropWhile (\<lambda>c. c = CHR ''0'') (rev ds))"

definition Sprintf_g :: "int \<Rightarrow> string" where
  "Sprintf_g k =
     (let n = nat \<bar>k\<bar>; ds = string_of_nat n;
          body =
            (if n < 10 ^ 6 then ds
             else
               let m = strip_zeros ds; e = length ds - 1 in
               take 1 m @ (if drop 1 m = [] then [] else CHR ''.'' # drop 1 m)
                 @ ''e+'' @ (if e < 10 then ''0'' else []) @ string_of_nat e)
      in if k < 0 then CHR ''-'' # body else body)"

subsection \<open>Resource quantities\<close>

text \<open>A \<^verbatim>\<open>resource.Quantity\<close> is the number it denotes.\<close>

datatype Quantity = Quantity (amount: real)

text \<open>
  The create path calls three methods of the libraries: \<^verbatim>\<open>String\<close> of \<^verbatim>\<open>metav1.Time\<close>, and
  \<^verbatim>\<open>MilliValue\<close> and \<^verbatim>\<open>Value\<close> of \<^verbatim>\<open>resource.Quantity\<close>. The last two return an \<^verbatim>\<open>int64\<close>,
  and what they return for a quantity too large for it depends on how the library holds
  the quantity. The three methods are therefore an argument of the model of the create
  path, and nothing is assumed about them.
\<close>

record Library =
  Time_String :: "time \<Rightarrow> string"
  MilliValue :: "Quantity \<Rightarrow> int"
  Value :: "Quantity \<Rightarrow> int"

text \<open>Rounding away from zero, to a whole number.\<close>

definition round_away :: "real \<Rightarrow> int" where
  "round_away x = (if 0 \<le> x then \<lceil>x\<rceil> else \<lfloor>x\<rfloor>)"

text \<open>
  \<^verbatim>\<open>resource.MustParse\<close> reads a signed decimal number followed by a suffix: one of the SI
  and binary suffixes, or a decimal exponent. Any other text makes it panic, which is
  \<open>None\<close> here.
\<close>

definition suffix_multiplier :: "string \<Rightarrow> real option" where
  "suffix_multiplier s =
     (if s = [] then Some 1
      else if s = ''n'' then Some (1 / 10 ^ 9)
      else if s = ''u'' then Some (1 / 10 ^ 6)
      else if s = ''m'' then Some (1 / 10 ^ 3)
      else if s = ''k'' then Some (10 ^ 3)
      else if s = ''M'' then Some (10 ^ 6)
      else if s = ''G'' then Some (10 ^ 9)
      else if s = ''T'' then Some (10 ^ 12)
      else if s = ''P'' then Some (10 ^ 15)
      else if s = ''E'' then Some (10 ^ 18)
      else if s = ''Ki'' then Some (2 ^ 10)
      else if s = ''Mi'' then Some (2 ^ 20)
      else if s = ''Gi'' then Some (2 ^ 30)
      else if s = ''Ti'' then Some (2 ^ 40)
      else if s = ''Pi'' then Some (2 ^ 50)
      else if s = ''Ei'' then Some (2 ^ 60)
      else if hd s = CHR ''e'' \<or> hd s = CHR ''E'' then
        (let (neg, r) = split_sign (tl s) in
         case parse_digits r of
           None \<Rightarrow> None
         | Some e \<Rightarrow> Some (if neg then 1 / 10 ^ e else 10 ^ e))
      else None)"

definition MustParse :: "string \<Rightarrow> Quantity option" where
  "MustParse s =
     (let (neg, r) = split_sign s;
          ip = takeWhile is_digit r; r1 = dropWhile is_digit r;
          fp = (if r1 \<noteq> [] \<and> hd r1 = CHR ''.'' then takeWhile is_digit (tl r1) else []);
          r2 = (if r1 \<noteq> [] \<and> hd r1 = CHR ''.'' then dropWhile is_digit (tl r1) else r1)
      in if ip = [] \<and> fp = [] then None
         else case suffix_multiplier r2 of
                None \<Rightarrow> None
              | Some m \<Rightarrow>
                  let v = (real (digits_value ip) + real (digits_value fp) / 10 ^ length fp) * m
                  in Some (Quantity (if neg then - v else v)))"

type_synonym ResourceList = "string \<rightharpoonup> Quantity"

text \<open>\<^verbatim>\<open>ResourceList.Cpu()\<close> and \<^verbatim>\<open>Memory()\<close>: the entry, or the zero quantity.\<close>

definition Cpu :: "ResourceList \<Rightarrow> Quantity" where
  "Cpu l = (case l ''cpu'' of Some q \<Rightarrow> q | None \<Rightarrow> Quantity 0)"

definition Memory :: "ResourceList \<Rightarrow> Quantity" where
  "Memory l = (case l ''memory'' of Some q \<Rightarrow> q | None \<Rightarrow> Quantity 0)"

subsection \<open>The Kubernetes side: pods\<close>

record EnvVar =
  ev_Name :: string
  ev_Value :: string

record ResourceRequirements =
  Limits :: "ResourceList option"
  Requests :: "ResourceList option"

record v1_Container =
  c_Name :: string
  c_Image :: string
  c_Command :: "string list"
  c_Args :: "string list"
  c_WorkingDir :: string
  c_ImagePullPolicy :: string
  c_Env :: "EnvVar list"
  c_Resources :: ResourceRequirements

record ContainerStatus =
  s_Name :: string
  s_State :: ContainerState
  s_LastTerminationState :: ContainerState
  s_Ready :: bool
  s_RestartCount :: int
  s_Image :: string
  s_ImageID :: string
  s_ContainerID :: string

record TypeMeta =
  Kind :: string
  APIVersion :: string

record ObjectMeta =
  Name :: string
  Namespace :: string
  ClusterName :: string
  UID :: string
  CreationTimestamp :: time

datatype Volume = Volume string

datatype PodCondition = PodCondition string

record PodSpec =
  NodeName :: string
  RestartPolicy :: string
  Volumes :: "Volume list"
  Containers :: "v1_Container list"

record PodStatus =
  Phase :: PodPhase
  Conditions :: "PodCondition list"
  Message :: string
  Reason :: string
  HostIP :: string
  PodIP :: string
  StartTime :: "time option"
  ContainerStatuses :: "ContainerStatus list"

record Pod =
  Type :: TypeMeta
  Meta :: ObjectMeta
  Spec :: PodSpec
  Status :: PodStatus

subsection \<open>The Zun side: capsules and the client\<close>

record Address =
  Addr :: string
  Version :: real

text \<open>
  \<open>Addresses\<close> is ranged over: the list gives the networks in the order of the visit,
  and \<open>None\<close> is the nil map. \<open>MetaLabels\<close> is only looked up.
\<close>

record ('cmd, 'mem) Capsule =
  UUID :: string
  MetaName :: string
  MetaLabels :: "string \<rightharpoonup> string"
  cap_Status :: string
  cap_RestartPolicy :: string
  CapsuleVersion :: string
  cap_CreatedAt :: time
  cap_UpdatedAt :: time
  Addresses :: "(string \<times> Address list) list option"
  cap_Containers :: "('cmd, 'mem) capsules_Container list"

text \<open>Looking a key up in a Go map gives the zero value, the empty string, when it is absent.\<close>

definition lookup :: "(string \<rightharpoonup> string) \<Rightarrow> string \<Rightarrow> string" where
  "lookup m k = (case m k of Some v \<Rightarrow> v | None \<Rightarrow> [])"

text \<open>
  One page handed to the function given to \<^verbatim>\<open>pager.EachPage\<close>: fetching it fails, or it
  arrives and \<^verbatim>\<open>capsules.ExtractCapsules\<close> gives an error or the capsules on it.
\<close>

datatype 'mem page =
    FetchError error
  | Page "error + (string, 'mem) Capsule list"

text \<open>
  The remote API behind \<^verbatim>\<open>p.ZunClient\<close>, as the answers it gives. \<open>EachPage k\<close> is the
  sequence of pages of the \<open>k\<close>-th traversal of the list pager.

  Modelled from the spec: the create call. The source submits the capsule through
  \<^verbatim>\<open>p.aciClient.CreateContainerGroup(p.resourceGroup, name, containerGroup)\<close>, where neither
  the client, the group nor the request variable is declared in the package; the spec
  gives the remote operation as \<^verbatim>\<open>create(name, labels, spec)\<close>, keyed by the capsule name.
\<close>

record 'mem ZunClient =
  capsules_Get :: "string \<Rightarrow> error + (string, 'mem) Capsule"
  EachPage :: "nat \<Rightarrow> 'mem page list"
  capsules_Delete :: "string \<Rightarrow> error option"
  CreateContainerGroup :: "string \<Rightarrow> (string list, real) Capsule \<Rightarrow> error option"

record 'mem ZunProvider =
  p_ZunClient :: "'mem ZunClient"
  p_region :: string
  p_nodeName :: string
  p_operatingSystem :: string
  p_cpu :: string
  p_memory :: string
  p_pods :: string
  p_daemonEndpointPort :: int

definition Sprintf_s_s :: "string \<Rightarrow> string \<Rightarrow> string" where
  "Sprintf_s_s a b = a @ ''-'' @ b"

subsection \<open>Capsule to pod\<close>

text \<open>
  The body of the loop over the containers of a capsule: the lines it logs, the
  container and its status. \<open>None\<close> is a panic of \<^verbatim>\<open>resource.MustParse\<close>.
\<close>

definition capsuleToPod_container ::
  "(string, 'mem) capsules_Container \<Rightarrow> (error list \<times> v1_Container \<times> ContainerStatus) option" where
  "capsuleToPod_container c =
     (let containerCommand = [cc_Command c];
          containerMemoryMB = fst (Atoi ''1024'');
          err = snd (Atoi ''1024'');
          lg = (case err of Some e \<Rightarrow> [e] | None \<Rightarrow> []);
          containerMemoryGB = go_div containerMemoryMB 1024;
          ready = (zunStatusToPodPhase (cc_Status c) = PodRunning)
      in
      Option.bind (MustParse (Sprintf_d (int64_of_float (cc_CPU c)))) (\<lambda>limit_cpu.
      Option.bind (MustParse (Sprintf_g containerMemoryGB @ ''G'')) (\<lambda>limit_memory.
      Option.bind (MustParse (Sprintf_d (int64_of_float (cc_CPU c * 1024 / 100)))) (\<lambda>request_cpu.
      Option.bind (MustParse (Sprintf_g containerMemoryGB @ ''G'')) (\<lambda>request_memory.
        Some (lg,
          \<lparr>c_Name = cc_Name c,
           c_Image = cc_Image c,
           c_Command = containerCommand,
           c_Args = [],
           c_WorkingDir = [],
           c_ImagePullPolicy = [],
           c_Env = [],
           c_Resources =
             \<lparr>Limits = Some (Map.empty(''cpu'' \<mapsto> limit_cpu, ''memory'' \<mapsto> limit_memory)),
              Requests = Some (Map.empty(''cpu'' \<mapsto> request_cpu, ''memory'' \<mapsto> request_memory))\<rparr>\<rparr>,
          \<lparr>s_Name = cc_Name c,
           s_State = zunContainerStausToContainerStatus c,
           s_LastTerminationState = zunContainerStausToContainerStatus c,
           s_Ready = ready,
           s_RestartCount = 0,
           s_Image = cc_Image c,
           s_ImageID = [],
           s_ContainerID = cc_ContainerID c\<rparr>))))))"

text \<open>The container and the status that the body of the loop builds from a container.\<close>

definition v1_Container_of :: "(string, 'mem) capsules_Container \<Rightarrow> v1_Container" where
  "v1_Container_of c =
     \<lparr>c_Name = cc_Name c, c_Image = cc_Image c, c_Command = [cc_Command c], c_Args = [],
      c_WorkingDir = [], c_ImagePullPolicy = [], c_Env = [],
      c_Resources =
        \<lparr>Limits = Some (Map.empty
           (''cpu'' \<mapsto> Quantity (real_of_int (int64_of_float (cc_CPU c))),
            ''memory'' \<mapsto> Quantity 1000000000)),
         Requests = Some (Map.empty
           (''cpu'' \<mapsto> Quantity (real_of_int (int64_of_float (cc_CPU c * 1024 / 100))),
            ''memory'' \<mapsto> Quantity 1000000000))\<rparr>\<rparr>"

definition ContainerStatus_of :: "(string, 'mem) capsules_Container \<Rightarrow> ContainerStatus" where
  "ContainerStatus_of c =
     \<lparr>s_Name = cc_Name c,
      s_State = zunContainerStausToContainerStatus c,
      s_LastTerminationState = zunContainerStausToContainerStatus c,
      s_Ready = (zunStatusToPodPhase (cc_Status c) = PodRunning),
      s_RestartCount = 0, s_Image = cc_Image c, s_ImageID = [],
      s_ContainerID = cc_ContainerID c\<rparr>"

fun capsuleToPod_containers ::
  "(string, 'mem) capsules_Container list \<Rightarrow> error list \<times> v1_Container list \<times> ContainerStatus list
     \<Rightarrow> (error list \<times> v1_Container list \<times> ContainerStatus list) option" where
  "capsuleToPod_containers [] acc = Some acc"
| "capsuleToPod_containers (c # cs) (lg, containers, containerStatuses) =
     (case capsuleToPod_container c of
        None \<Rightarrow> None
      | Some (l, container, containerStatus) \<Rightarrow>
          capsuleToPod_containers cs
            (lg @ l, containers @ [container], containerStatuses @ [containerStatus]))"

text \<open>The two nested loops over the addresses: every address of version 4 is assigned.\<close>

definition capsuleToPod_ip :: "(string \<times> Address list) list option \<Rightarrow> string" where
  "capsuleToPod_ip addresses =
     (case addresses of
        None \<Rightarrow> []
      | Some networks \<Rightarrow>
          foldl (\<lambda>ip (k, v). foldl (\<lambda>ip addr. if Version addr = 4 then Addr addr else ip) ip v)
            [] networks)"

text \<open>The result is the lines logged and what the function returns.\<close>

definition capsuleToPod :: "(string, 'mem) Capsule \<Rightarrow> error list \<times> (error + Pod)" where
  "capsuleToPod capsule =
     (let podCreationTimestamp = cap_CreatedAt capsule;
          containerStartTime = cap_UpdatedAt capsule
      in
      case capsuleToPod_containers (cap_Containers capsule) ([], [], []) of
        None \<Rightarrow> ([], Inl (Panic ''resource.MustParse''))
      | Some (lg, containers, containerStatuses) \<Rightarrow>
          let ip = capsuleToPod_ip (Addresses capsule) in
          (lg, Inr
            \<lparr>Type = \<lparr>Kind = ''Pod'', APIVersion = ''v1''\<rparr>,
             Meta =
               \<lparr>Name = lookup (MetaLabels capsule) ''PodName'',
                Namespace = lookup (MetaLabels capsule) ''Namespace'',
                ClusterName = lookup (MetaLabels capsule) ''ClusterName'',
                UID = UUID capsule,
                CreationTimestamp = podCreationTimestamp\<rparr>,
             Spec =
               \<lparr>NodeName = lookup (MetaLabels capsule) ''NodeName'',
                RestartPolicy = [],
                Volumes = [],
                Containers = containers\<rparr>,
             Status =
               \<lparr>Phase = zunCapStatusToPodPhase (cap_Status capsule),
                Conditions = [],
                Message = [],
                Reason = [],
                HostIP = [],
                PodIP = ip,
                StartTime = Some containerStartTime,
                ContainerStatuses = containerStatuses\<rparr>\<rparr>))"

subsection \<open>Pod to capsule\<close>

text \<open>
  \<^verbatim>\<open>getContainers\<close> assigns to and reads two variables, \<^verbatim>\<open>cpuLimit\<close> and \<^verbatim>\<open>memoryLimit\<close>,
  that the function does not declare: their declarations in the function are commented
  out. With the text of the function as it is they are variables of the package, so
  they keep their values from one container to the next. Their values on entry are the
  argument \<open>limits\<close> of the model. The argument \<open>lib\<close> gives the methods of the
  library.
\<close>

definition zero_capsules_Container :: "(string list, real) capsules_Container" where
  "zero_capsules_Container =
     \<lparr>cc_Name = [], cc_Image = [], cc_Command = [], cc_WorkDir = [],
      cc_ImagePullPolicy = [], cc_Environment = Map.empty, cc_CPU = 0, cc_Memory = 0,
      cc_Status = [], cc_StatusDetail = [], cc_ContainerID = [],
      cc_CreatedAt = 0, cc_UpdatedAt = 0\<rparr>"

fun getContainers_loop ::
  "Library \<Rightarrow> v1_Container list \<Rightarrow> real \<times> real
     \<Rightarrow> (string list, real) capsules_Container list
     \<Rightarrow> (string list, real) capsules_Container list" where
  "getContainers_loop lib [] limits containers = containers"
| "getContainers_loop lib (container # rest) (cpuLimit, memoryLimit) containers =
     (let c = zero_capsules_Container
            \<lparr>cc_Name := c_Name container,
             cc_Image := c_Image container,
             cc_Command := c_Command container @ c_Args container,
             cc_WorkDir := c_WorkingDir container,
             cc_ImagePullPolicy := c_ImagePullPolicy container,
             cc_Environment :=
               foldl (\<lambda>m e. m(ev_Name e \<mapsto> ev_Value e)) Map.empty (c_Env container)\<rparr>
      in
      case Limits (c_Resources container) of
        None \<Rightarrow> getContainers_loop lib rest (cpuLimit, memoryLimit) (containers @ [c])
      | Some l \<Rightarrow>
          (let cpuLimit' =
                 (if l ''cpu'' \<noteq> None then real_of_int (MilliValue lib (Cpu l)) / 1000
                  else cpuLimit);
               memoryLimit' =
                 (if l ''memory'' \<noteq> None then real_of_int (Value lib (Memory l)) / 1000000000
                  else memoryLimit)
           in getContainers_loop lib rest (cpuLimit', memoryLimit')
                (containers @ [c\<lparr>cc_CPU := cpuLimit', cc_Memory := memoryLimit' * 1024\<rparr>])))"

definition getContainers ::
  "Library \<Rightarrow> real \<times> real \<Rightarrow> Pod \<Rightarrow> error + (string list, real) capsules_Container list" where
  "getContainers lib limits pod =
     Inr (getContainers_loop lib (Containers (Spec pod)) limits [])"

definition zero_Capsule :: "(string list, real) Capsule" where
  "zero_Capsule =
     \<lparr>UUID = [], MetaName = [], MetaLabels = Map.empty, cap_Status = [],
      cap_RestartPolicy = [], CapsuleVersion = [], cap_CreatedAt = 0, cap_UpdatedAt = 0,
      Addresses = None, cap_Containers = []\<rparr>"

text \<open>
  The request that \<^verbatim>\<open>CreatePod\<close> builds: the name given to the create call and the
  capsule.
  The source writes the separator of \<^verbatim>\<open>MetaName\<close> as the rune \<^verbatim>\<open>'-'\<close>.
\<close>

definition CreatePod_request ::
  "Library \<Rightarrow> real \<times> real \<Rightarrow> Pod \<Rightarrow> error + string \<times> (string list, real) Capsule" where
  "CreatePod_request lib limits pod =
     (let podUID = UID (Meta pod);
          podCreationTimestamp = Time_String lib (CreationTimestamp (Meta pod));
          capsule = zero_Capsule
            \<lparr>cap_RestartPolicy := RestartPolicy (Spec pod),
             CapsuleVersion := ''beta'',
             MetaLabels := Map.empty
               (''PodName'' \<mapsto> Name (Meta pod),
                ''ClusterName'' \<mapsto> ClusterName (Meta pod),
                ''NodeName'' \<mapsto> NodeName (Spec pod),
                ''Namespace'' \<mapsto> Namespace (Meta pod),
                ''UID'' \<mapsto> podUID,
                ''CreationTimestamp'' \<mapsto> podCreationTimestamp),
             MetaName := Namespace (Meta pod) @ [CHR ''-''] @ Name (Meta pod)\<rparr>
      in
      case getContainers lib limits pod of
        Inl err \<Rightarrow> Inl err
      | Inr containers \<Rightarrow>
          Inr (Sprintf_s_s (Namespace (Meta pod)) (Name (Meta pod)),
               capsule\<lparr>cap_Containers := containers\<rparr>))"

definition CreatePod ::
  "'mem ZunProvider \<Rightarrow> Library \<Rightarrow> real \<times> real \<Rightarrow> Pod \<Rightarrow> error option" where
  "CreatePod p lib limits pod =
     (case CreatePod_request lib limits pod of
        Inl err \<Rightarrow> Some err
      | Inr (name, capsule) \<Rightarrow> CreateContainerGroup (p_ZunClient p) name capsule)"

subsection \<open>The other lifecycle operations\<close>

text \<open>
  The result of \<^verbatim>\<open>GetPod\<close> is the lines logged, and a pointer and an error: \<open>Inr None\<close> is
  the nil pointer with no error.
\<close>

definition GetPod ::
  "'mem ZunProvider \<Rightarrow> string \<Rightarrow> string \<Rightarrow> error list \<times> (error + Pod option)" where
  "GetPod p namespace name =
     (case capsules_Get (p_ZunClient p) (Sprintf_s_s namespace name) of
        Inl err \<Rightarrow> ([], Inl err)
      | Inr capsule \<Rightarrow> (case capsuleToPod capsule of (l, r) \<Rightarrow> (l, map_sum id Some r)))"

definition GetPodStatus ::
  "'mem ZunProvider \<Rightarrow> string \<Rightarrow> string \<Rightarrow> error list \<times> (error + PodStatus option)" where
  "GetPodStatus p namespace name =
     (case GetPod p namespace name of
        (l, Inl err) \<Rightarrow> (l, Inl err)
      | (l, Inr None) \<Rightarrow> (l, Inr None)
      | (l, Inr (Some pod)) \<Rightarrow> (l, Inr (Some (Status pod))))"





definition UpdatePod :: "'mem ZunProvider \<Rightarrow> Pod \<Rightarrow> error option" where
  "UpdatePod p pod = None"

definition DeletePod :: "'mem ZunProvider \<Rightarrow> Pod \<Rightarrow> error option" where
  "DeletePod p pod =
     capsules_Delete (p_ZunClient p) (Sprintf_s_s (Namespace (Meta pod)) (Name (Meta pod)))"

definition GetContainerLogs ::
  "'mem ZunProvider \<Rightarrow> string \<Rightarrow> string \<Rightarrow> string \<Rightarrow> int \<Rightarrow> string \<times> error option" where
  "GetContainerLogs p namespace podName containerName tail = (''not support in Zun Provider'', None)"

subsection \<open>Example values\<close>

definition example_Container :: "string \<Rightarrow> (string, string) capsules_Container" where
  "example_Container status =
     \<lparr>cc_Name = ''c1'', cc_Image = ''nginx'', cc_Command = ''nginx'', cc_WorkDir = [],
      cc_ImagePullPolicy = [], cc_Environment = Map.empty, cc_CPU = 1 / 2, cc_Memory = ''512'',
      cc_Status = status, cc_StatusDetail = ''detail'', cc_ContainerID = ''id-1'',
      cc_CreatedAt = 100, cc_UpdatedAt = 200\<rparr>"

definition example_Capsule ::
  "string \<Rightarrow> (string \<times> Address list) list option \<Rightarrow> (string, string) Capsule" where
  "example_Capsule node addresses =
     \<lparr>UUID = ''u-1'', MetaName = ''some-name'',
      MetaLabels = Map.empty
        (''PodName'' \<mapsto> ''web'', ''Namespace'' \<mapsto> ''ns1'', ''ClusterName'' \<mapsto> ''k8s'',
         ''NodeName'' \<mapsto> node),
      cap_Status = ''Running'', cap_RestartPolicy = ''Always'', CapsuleVersion = ''beta'',
      cap_CreatedAt = 100, cap_UpdatedAt = 200, Addresses = addresses,
      cap_Containers = [example_Container ''Running'']\<rparr>"

definition example_Provider ::
  "(string \<Rightarrow> error + (string, string) Capsule) \<Rightarrow> string page list \<Rightarrow> string ZunProvider" where
  "example_Provider get pages =
     \<lparr>p_ZunClient =
        \<lparr>capsules_Get = get, EachPage = (\<lambda>k. pages),
         capsules_Delete = (\<lambda>name. Some (ErrRemote name)),
         CreateContainerGroup = (\<lambda>name capsule. Some (ErrRemote name))\<rparr>,
      p_region = ''RegionOne'', p_nodeName = ''vk'', p_operatingSystem = ''Linux'',
      p_cpu = ''20'', p_memory = ''100Gi'', p_pods = ''20'', p_daemonEndpointPort = 10250\<rparr>"

text \<open>A capsule with two addresses of version 4 on one network, and one of version 6.\<close>

definition two_ipv4_Capsule :: "(string, string) Capsule" where
  "two_ipv4_Capsule =
     example_Capsule ''vk''
       (Some [(''private'',
              [\<lparr>Addr = ''10.0.0.1'', Version = 4\<rparr>, \<lparr>Addr = ''fd00::1'', Version = 6\<rparr>,
               \<lparr>Addr = ''10.0.0.2'', Version = 4\<rparr>])])"

text \<open>The pod of the scenario: one container with the limits \<^verbatim>\<open>500m\<close> and \<^verbatim>\<open>256Mi\<close>.\<close>

definition scenario_Pod :: Pod where
  "scenario_Pod =
     \<lparr>Type = \<lparr>Kind = ''Pod'', APIVersion = ''v1''\<rparr>,
      Meta = \<lparr>Name = ''web'', Namespace = ''ns1'', ClusterName = ''k8s'', UID = ''uid-1'',
              CreationTimestamp = 100\<rparr>,
      Spec = \<lparr>NodeName = ''vk'', RestartPolicy = ''Always'', Volumes = [],
              Containers =
                [\<lparr>c_Name = ''c1'', c_Image = ''nginx'', c_Command = [], c_Args = [],
                  c_WorkingDir = [], c_ImagePullPolicy = [], c_Env = [],
                  c_Resources =
                    \<lparr>Limits = Some (Map.empty
                       (''cpu'' \<mapsto> the (MustParse ''500m''),
                        ''memory'' \<mapsto> the (MustParse ''256Mi''))),
                     Requests = None\<rparr>\<rparr>]\<rparr>,
      Status = \<lparr>Phase = PodPending, Conditions = [], Message = [], Reason = [], HostIP = [],
                PodIP = [], StartTime = None, ContainerStatuses = []\<rparr>\<rparr>"

text \<open>
  The pod of the scenario with a second container, whose limits name the memory and not
  the CPU.
\<close>

definition carried_Pod :: Pod where
  "carried_Pod =
     scenario_Pod\<lparr>Spec := (Spec scenario_Pod)
       \<lparr>Containers := Containers (Spec scenario_Pod) @
          [\<lparr>c_Name = ''c2'', c_Image = ''redis'', c_Command = [], c_Args = [],
            c_WorkingDir = [], c_ImagePullPolicy = [], c_Env = [],
            c_Resources =
              \<lparr>Limits = Some (Map.empty(''memory'' \<mapsto> the (MustParse ''256Mi''))),
               Requests = None\<rparr>\<rparr>]\<rparr>\<rparr>"

text \<open>
  An instance of the library. Its two methods of a quantity round away from zero to a
  whole number of thousandths and of units, which is what the library returns wherever
  the result fits an \<^verbatim>\<open>int64\<close>; the instance is used on such quantities only.
\<close>

definition example_Library :: Library where
  "example_Library =
     \<lparr>Time_String = Sprintf_d,
      MilliValue = (\<lambda>q. round_away (amount q * 1000)),
      Value = (\<lambda>q. round_away (amount q))\<rparr>"

text \<open>The number of the three pointers of a container state that are set.\<close>

definition states_set :: "ContainerState \<Rightarrow> nat" where
  "states_set st =
     (if Waiting st = None then 0 else 1) + (if Running st = None then 0 else 1)
       + (if Terminated st = None then 0 else 1)"

text \<open>
  How the limits of a container of the pod show in the container of the request: both
  fields keep their zero value when the container has no limits, and a limit that is
  present gives the field its value, converted.
\<close>

definition limits_applied ::
  "Library \<Rightarrow> v1_Container \<Rightarrow> (string list, real) capsules_Container \<Rightarrow> bool" where
  "limits_applied lib k c =
     ((Limits (c_Resources k) = None \<longrightarrow> cc_CPU c = 0 \<and> cc_Memory c = 0)
      \<and> (\<forall>l q. Limits (c_Resources k) = Some l \<and> l ''cpu'' = Some q \<longrightarrow>
                cc_CPU c = real_of_int (MilliValue lib q) / 1000)
      \<and> (\<forall>l q. Limits (c_Resources k) = Some l \<and> l ''memory'' = Some q \<longrightarrow>
                cc_Memory c = real_of_int (Value lib q) / 1000000000 * 1024))"

section \<open>Properties\<close>

subsection \<open>Decimal strings and quantities\<close>

lemma digit_val_nth: "m < 10 \<Longrightarrow> digit_val (''0123456789'' ! m) = Some m"
proof -
  assume "m < 10"
  then consider "m = 0" | "m = 1" | "m = 2" | "m = 3" | "m = 4" | "m = 5" | "m = 6"
    | "m = 7" | "m = 8" | "m = 9"
    by atomize_elim arith
  then show ?thesis
    by cases (simp_all add: digit_val_def)
qed

lemma digit_val_digit_char: "digit_val (digit_char n) = Some (n mod 10)"
  by (simp add: digit_char_def digit_val_nth)

lemma is_digit_digit_char: "is_digit (digit_char n)"
  by (simp add: is_digit_def digit_val_digit_char)

lemma not_sign_digit: "is_digit c \<Longrightarrow> c \<noteq> CHR ''-'' \<and> c \<noteq> CHR ''+'' \<and> c \<noteq> CHR ''.''"
  by (auto simp: is_digit_def digit_val_def)

lemma string_of_nat_digits: "list_all is_digit (string_of_nat n)"
proof (induction n rule: string_of_nat.induct)
  case (1 n)
  show ?case
    by (subst string_of_nat.simps) (use 1 in \<open>simp add: is_digit_digit_char\<close>)
qed

lemma string_of_nat_nonempty: "string_of_nat n \<noteq> []"
  by (subst string_of_nat.simps) simp

lemma digits_value_snoc: "digits_value (ds @ [c]) = 10 * digits_value ds + (case digit_val c of Some d \<Rightarrow> d | None \<Rightarrow> 0)"
  by (simp add: digits_value_def)

lemma digits_value_string_of_nat: "digits_value (string_of_nat n) = n"
proof (induction n rule: string_of_nat.induct)
  case (1 n)
  show ?case
  proof (cases "n < 10")
    case True
    then show ?thesis
      by (subst string_of_nat.simps) (simp add: digits_value_def digit_val_digit_char)
  next
    case False
    then have "digits_value (string_of_nat (n div 10)) = n div 10" using 1 by simp
    with False show ?thesis
      by (subst string_of_nat.simps) (simp add: digits_value_snoc digit_val_digit_char)
  qed
qed



lemma split_sign_digits: "s \<noteq> [] \<Longrightarrow> list_all is_digit s \<Longrightarrow> split_sign s = (False, s)"
  by (cases s) (auto simp: split_sign_def dest: not_sign_digit)

lemma takeWhile_digits: "list_all is_digit s \<Longrightarrow> takeWhile is_digit s = s"
  by (simp add: list_all_iff)

lemma dropWhile_digits: "list_all is_digit s \<Longrightarrow> dropWhile is_digit s = []"
  by (simp add: list_all_iff)

lemma MustParse_digits:
  assumes "s \<noteq> []" "list_all is_digit s"
  shows "MustParse s = Some (Quantity (real (digits_value s)))"
  using assms
  by (simp add: MustParse_def split_sign_digits takeWhile_digits dropWhile_digits
      suffix_multiplier_def digits_value_def)

lemma MustParse_minus_digits:
  assumes "s \<noteq> []" "list_all is_digit s"
  shows "MustParse (CHR ''-'' # s) = Some (Quantity (- real (digits_value s)))"
  using assms
  by (simp add: MustParse_def split_sign_def takeWhile_digits dropWhile_digits
      suffix_multiplier_def digits_value_def)


lemma MustParse_Sprintf_d: "MustParse (Sprintf_d k) = Some (Quantity (real_of_int k))"
proof (cases "k < 0")
  case True
  then show ?thesis
    by (simp add: Sprintf_d_def MustParse_minus_digits string_of_nat_nonempty string_of_nat_digits
        digits_value_string_of_nat)
next
  case False
  then show ?thesis
    by (simp add: Sprintf_d_def MustParse_digits string_of_nat_nonempty string_of_nat_digits
        digits_value_string_of_nat)
qed

subsection \<open>The translation of a capsule never fails\<close>

lemma Atoi_1024: "Atoi ''1024'' = (1024, None)"
  by (simp add: Atoi_def split_sign_def parse_digits_def is_digit_def digit_val_def digits_value_def)

lemma string_of_nat_small: "n < 10 \<Longrightarrow> string_of_nat n = [digit_char n]"
  by (subst string_of_nat.simps) simp

lemma string_of_nat_1: "string_of_nat (Suc 0) = ''1''"
  using string_of_nat_small [of "Suc 0"] by (simp add: digit_char_def)

lemma Sprintf_g_1: "Sprintf_g (go_div 1024 1024) = ''1''"
  by (simp add: go_div_def Sprintf_g_def string_of_nat_1)

lemma MustParse_1G: "MustParse (''1'' @ ''G'') = Some (Quantity 1000000000)"
  by (simp add: MustParse_def split_sign_def is_digit_def digit_val_def
      digits_value_def suffix_multiplier_def)

lemma capsuleToPod_container_eq:
  "capsuleToPod_container c = Some ([], v1_Container_of c, ContainerStatus_of c)"
  unfolding capsuleToPod_container_def v1_Container_of_def ContainerStatus_of_def Let_def
  by (simp only: Atoi_1024 fst_conv snd_conv MustParse_Sprintf_d Sprintf_g_1 MustParse_1G
      Option.bind.simps option.case)

lemma capsuleToPod_containers_eq:
  "capsuleToPod_containers cs (lg, ks, ss) =
     Some (lg, ks @ map v1_Container_of cs, ss @ map ContainerStatus_of cs)"
  by (induction cs arbitrary: lg ks ss) (simp_all add: capsuleToPod_container_eq)

lemma capsuleToPod_eq:
  "capsuleToPod capsule =
     ([], Inr
        \<lparr>Type = \<lparr>Kind = ''Pod'', APIVersion = ''v1''\<rparr>,
         Meta =
           \<lparr>Name = lookup (MetaLabels capsule) ''PodName'',
            Namespace = lookup (MetaLabels capsule) ''Namespace'',
            ClusterName = lookup (MetaLabels capsule) ''ClusterName'',
            UID = UUID capsule,
            CreationTimestamp = cap_CreatedAt capsule\<rparr>,
         Spec =
           \<lparr>NodeName = lookup (MetaLabels capsule) ''NodeName'',
            RestartPolicy = [],
            Volumes = [],
            Containers = map v1_Container_of (cap_Containers capsule)\<rparr>,
         Status =
           \<lparr>Phase = zunCapStatusToPodPhase (cap_Status capsule),
            Conditions = [],
            Message = [],
            Reason = [],
            HostIP = [],
            PodIP = capsuleToPod_ip (Addresses capsule),
            StartTime = Some (cap_UpdatedAt capsule),
            ContainerStatuses = map ContainerStatus_of (cap_Containers capsule)\<rparr>\<rparr>)"
  by (simp add: capsuleToPod_def capsuleToPod_containers_eq)

lemma foldl_ip_append:
  "foldl (\<lambda>ip addr. if Version addr = 4 then Addr addr else ip) ip0 v =
     (case filter (\<lambda>a. Version a = 4) v of [] \<Rightarrow> ip0 | x # xs \<Rightarrow> Addr (last (x # xs)))"
  by (induction v arbitrary: ip0) (auto split: list.splits)

lemma foldl_networks:
  "foldl (\<lambda>ip (k, v). foldl (\<lambda>ip addr. if Version addr = 4 then Addr addr else ip) ip v) ip0 networks =
     foldl (\<lambda>ip addr. if Version addr = 4 then Addr addr else ip) ip0 (concat (map snd networks))"
  by (induction networks arbitrary: ip0) (auto split: prod.splits)

lemma capsuleToPod_ip_last:
  "capsuleToPod_ip addresses =
     (case addresses of
        None \<Rightarrow> []
      | Some networks \<Rightarrow>
          (case filter (\<lambda>a. Version a = 4) (concat (map snd networks)) of
             [] \<Rightarrow> []
           | x # xs \<Rightarrow> Addr (last (x # xs))))"
  by (simp add: capsuleToPod_ip_def foldl_networks foldl_ip_append split: option.splits)

subsection \<open>The state mappers\<close>

text \<open>
  Claim C2. For every container status string the container state mapper returns a state
  with exactly one of Waiting, Running and Terminated set: \<^verbatim>\<open>Running\<close> and \<^verbatim>\<open>Stopped\<close> give
  a Running state that started at the creation time of the container; \<^verbatim>\<open>Error\<close> and
  \<^verbatim>\<open>Dead\<close> give a Terminated state whose reason is the status string and whose message
  is the status detail; every other string gives a Waiting state with the same reason
  and message.
\<close>

theorem zunContainerStausToContainerStatus_cases:
  "states_set (zunContainerStausToContainerStatus cs) = 1
   \<and> (cc_Status cs = ''Running'' \<or> cc_Status cs = ''Stopped'' \<longrightarrow>
        zunContainerStausToContainerStatus cs =
          \<lparr>Waiting = None, Running = Some \<lparr>csr_StartedAt = cc_CreatedAt cs\<rparr>,
           Terminated = None\<rparr>)
   \<and> (cc_Status cs = ''Error'' \<or> cc_Status cs = ''Dead'' \<longrightarrow>
        Waiting (zunContainerStausToContainerStatus cs) = None
        \<and> Running (zunContainerStausToContainerStatus cs) = None
        \<and> (\<exists>t. Terminated (zunContainerStausToContainerStatus cs) = Some t
               \<and> cst_Reason t = cc_Status cs \<and> cst_Message t = cc_StatusDetail cs))
   \<and> (cc_Status cs \<noteq> ''Running'' \<and> cc_Status cs \<noteq> ''Stopped''
        \<and> cc_Status cs \<noteq> ''Error'' \<and> cc_Status cs \<noteq> ''Dead'' \<longrightarrow>
        zunContainerStausToContainerStatus cs =
          \<lparr>Waiting = Some \<lparr>csw_Reason = cc_Status cs, csw_Message = cc_StatusDetail cs\<rparr>,
           Running = None, Terminated = None\<rparr>)"
  by (simp add: zunContainerStausToContainerStatus_def states_set_def)

theorem zunContainerStausToContainerStatus_cases_witness:
  "zunContainerStausToContainerStatus (example_Container ''Stopped'') =
     \<lparr>Waiting = None, Running = Some \<lparr>csr_StartedAt = 100\<rparr>, Terminated = None\<rparr>
   \<and> (\<exists>t. Terminated (zunContainerStausToContainerStatus (example_Container ''Dead'')) = Some t
          \<and> cst_Reason t = ''Dead'' \<and> cst_Message t = ''detail'')
   \<and> zunContainerStausToContainerStatus (example_Container ''Paused'') =
     \<lparr>Waiting = Some \<lparr>csw_Reason = ''Paused'', csw_Message = ''detail''\<rparr>,
      Running = None, Terminated = None\<rparr>"
  using zunContainerStausToContainerStatus_cases [of "example_Container ''Stopped''"]
    zunContainerStausToContainerStatus_cases [of "example_Container ''Dead''"]
    zunContainerStausToContainerStatus_cases [of "example_Container ''Paused''"]
  by (simp add: example_Container_def)

text \<open>
  Claim C7. The mapping from capsule status to pod phase is total: it maps \<^verbatim>\<open>Running\<close>
  to Running, \<^verbatim>\<open>Succeeded\<close> to Succeeded, \<^verbatim>\<open>Failed\<close> to Failed, \<^verbatim>\<open>Pending\<close> to Pending,
  and every other string to Unknown.
\<close>

theorem zunCapStatusToPodPhase_cases:
  "zunCapStatusToPodPhase ''Running'' = PodRunning
   \<and> zunCapStatusToPodPhase ''Succeeded'' = PodSucceeded
   \<and> zunCapStatusToPodPhase ''Failed'' = PodFailed
   \<and> zunCapStatusToPodPhase ''Pending'' = PodPending
   \<and> (status \<noteq> ''Running'' \<and> status \<noteq> ''Succeeded'' \<and> status \<noteq> ''Failed''
        \<and> status \<noteq> ''Pending'' \<longrightarrow> zunCapStatusToPodPhase status = PodUnknown)"
  by (simp add: zunCapStatusToPodPhase_def)

theorem zunCapStatusToPodPhase_cases_witness:
  "zunCapStatusToPodPhase ''Stopped'' = PodUnknown \<and> zunCapStatusToPodPhase [] = PodUnknown"
  using zunCapStatusToPodPhase_cases [of "''Stopped''"] zunCapStatusToPodPhase_cases [of "[]"]
  by simp

subsection \<open>The operations that Zun does not support\<close>

text \<open>
  Claim C9. The unsupported operations never return an error: \<^verbatim>\<open>UpdatePod\<close> returns nil
  for every pod, and \<^verbatim>\<open>GetContainerLogs\<close> returns one fixed placeholder string and a nil
  error for every namespace, pod name, container name and tail.
\<close>

theorem unsupported_operations_succeed:
  "UpdatePod p pod = None
   \<and> GetContainerLogs p namespace podName containerName tail
       = (''not support in Zun Provider'', None)"
  by (simp add: UpdatePod_def GetContainerLogs_def)

subsection \<open>Capsule to pod\<close>

text \<open>
  Claim C1. Translating a pod to a capsule creation request and translating a capsule that
  carries the labels of that request back to a pod reproduces the namespace, the name, the
  cluster name and the node name of the pod. They are read from the label mapping: the
  capsule is arbitrary in every other field, its name included. This holds for every pod,
  so also for the pods without separator collisions that the claim speaks of.
\<close>

theorem CreatePod_capsuleToPod_roundtrip:
  "\<exists>name request pod'.
     CreatePod_request lib limits pod = Inr (name, request)
     \<and> capsuleToPod (capsule\<lparr>MetaLabels := MetaLabels request\<rparr>) = ([], Inr pod')
     \<and> Namespace (Meta pod') = Namespace (Meta pod)
     \<and> Name (Meta pod') = Name (Meta pod)
     \<and> ClusterName (Meta pod') = ClusterName (Meta pod)
     \<and> NodeName (Spec pod') = NodeName (Spec pod)"
  by (simp add: CreatePod_request_def getContainers_def capsuleToPod_eq lookup_def)

text \<open>
  Claim C8, as stated, fails: the loops over the addresses assign every address of
  version 4 and do not stop at the first, so the last one visited is the pod IP. Here the
  first of two addresses of version 4 in one list is \<^verbatim>\<open>10.0.0.1\<close> and the pod IP is
  \<^verbatim>\<open>10.0.0.2\<close>.
\<close>

theorem PodIP_first_ipv4_counterexample:
  "PodIP (Status (projr (snd (capsuleToPod two_ipv4_Capsule)))) = ''10.0.0.2''
   \<and> PodIP (Status (projr (snd (capsuleToPod two_ipv4_Capsule)))) \<noteq> ''10.0.0.1''"
  by (simp add: capsuleToPod_eq two_ipv4_Capsule_def example_Capsule_def capsuleToPod_ip_def)

text \<open>
  Claim C8, amended. For every capsule the translation succeeds and the pod IP is the
  last address of version 4 in the order of the visit (the networks in the order in which
  the map is ranged over, the addresses of a network in the order of the slice); addresses
  of other versions are ignored, and the pod IP is the empty string when there is no
  address of version 4 or no address map.
\<close>

theorem PodIP_last_ipv4:
  "\<exists>pod. snd (capsuleToPod capsule) = Inr pod
     \<and> PodIP (Status pod) =
         (case Addresses capsule of
            None \<Rightarrow> []
          | Some networks \<Rightarrow>
              (case filter (\<lambda>a. Version a = 4) (concat (map snd networks)) of
                 [] \<Rightarrow> []
               | x # xs \<Rightarrow> Addr (last (x # xs))))"
  by (simp add: capsuleToPod_eq capsuleToPod_ip_last)

text \<open>
  Claim C10. For every capsule the translation succeeds, and every container of the pod
  has a memory limit and a memory request of exactly 1 G, the quantity that the constant
  \<^verbatim>\<open>"1024"\<close> gives once parsed, divided by 1024 and printed with the suffix \<^verbatim>\<open>G\<close>. The
  \<^verbatim>\<open>Memory\<close> field of the containers of the capsule is not read: replacing it by any
  other value leaves the result the same.
\<close>

theorem capsuleToPod_memory_fixed:
  "MustParse (Sprintf_g (go_div (fst (Atoi ''1024'')) 1024) @ ''G'') = Some (Quantity 1000000000)
   \<and> (\<exists>pod. snd (capsuleToPod capsule) = Inr pod
         \<and> length (Containers (Spec pod)) = length (cap_Containers capsule)
         \<and> (\<forall>k \<in> set (Containers (Spec pod)).
               \<exists>l r. Limits (c_Resources k) = Some l \<and> l ''memory'' = Some (Quantity 1000000000)
                   \<and> Requests (c_Resources k) = Some r \<and> r ''memory'' = Some (Quantity 1000000000)))
   \<and> capsuleToPod (capsule\<lparr>cap_Containers := map (\<lambda>c. c\<lparr>cc_Memory := m c\<rparr>) (cap_Containers capsule)\<rparr>)
       = capsuleToPod capsule"
proof -
  have a: "MustParse (Sprintf_g (go_div (fst (Atoi ''1024'')) 1024) @ ''G'') = Some (Quantity 1000000000)"
    by (simp only: Atoi_1024 fst_conv Sprintf_g_1 MustParse_1G)
  have b: "v1_Container_of (c\<lparr>cc_Memory := x\<rparr>) = v1_Container_of c"
    "ContainerStatus_of (c\<lparr>cc_Memory := x\<rparr>) = ContainerStatus_of c" for c :: "(string, 'a) capsules_Container" and x
    by (simp_all add: v1_Container_of_def ContainerStatus_of_def zunContainerStausToContainerStatus_def)
  have c: "capsuleToPod (capsule\<lparr>cap_Containers := map (\<lambda>c. c\<lparr>cc_Memory := m c\<rparr>) (cap_Containers capsule)\<rparr>)
       = capsuleToPod capsule"
    by (simp add: capsuleToPod_eq b comp_def)
  have d: "\<exists>pod. snd (capsuleToPod capsule) = Inr pod
         \<and> length (Containers (Spec pod)) = length (cap_Containers capsule)
         \<and> (\<forall>k \<in> set (Containers (Spec pod)).
               \<exists>l r. Limits (c_Resources k) = Some l \<and> l ''memory'' = Some (Quantity 1000000000)
                   \<and> Requests (c_Resources k) = Some r \<and> r ''memory'' = Some (Quantity 1000000000))"
    by (auto simp: capsuleToPod_eq v1_Container_of_def)
  from a c d show ?thesis by blast
qed

theorem capsuleToPod_memory_fixed_witness:
  "\<exists>pod. snd (capsuleToPod (example_Capsule ''vk'' None)) = Inr pod
     \<and> Containers (Spec pod) \<noteq> []
     \<and> (\<exists>l. Limits (c_Resources (hd (Containers (Spec pod)))) = Some l
            \<and> l ''memory'' = Some (Quantity 1000000000))"
proof -
  from capsuleToPod_memory_fixed [of "example_Capsule ''vk'' None"]
  obtain pod where p: "snd (capsuleToPod (example_Capsule ''vk'' None)) = Inr pod"
    "length (Containers (Spec pod)) = length (cap_Containers (example_Capsule ''vk'' None))"
    "\<forall>k \<in> set (Containers (Spec pod)).
               \<exists>l r. Limits (c_Resources k) = Some l \<and> l ''memory'' = Some (Quantity 1000000000)
                   \<and> Requests (c_Resources k) = Some r \<and> r ''memory'' = Some (Quantity 1000000000)"
    by blast
  from p(2) have ne: "Containers (Spec pod) \<noteq> []"
    by (auto simp: example_Capsule_def)
  then have "hd (Containers (Spec pod)) \<in> set (Containers (Spec pod))" by simp
  with p(3) ne p(1) show ?thesis by blast
qed

subsection \<open>Listing the pods\<close>






subsection \<open>The status of a pod\<close>

text \<open>\<^verbatim>\<open>GetPodStatus\<close> is \<^verbatim>\<open>GetPod\<close> followed by the selection of the status.\<close>

lemma GetPodStatus_GetPod:
  "GetPodStatus p namespace name =
     (fst (GetPod p namespace name), map_sum id (map_option Status) (snd (GetPod p namespace name)))"
  by (simp add: GetPodStatus_def split: prod.splits sum.splits option.splits)

text \<open>
  Claim C4, at a pod that does not exist. The remote API answers "not found" to every
  name; \<^verbatim>\<open>GetPod\<close> returns that error, and so does \<^verbatim>\<open>GetPodStatus\<close>. The branch of
  \<^verbatim>\<open>GetPodStatus\<close> that returns a nil status and a nil error is not reached, against the
  comments of both functions (\<^verbatim>\<open>returns nil if a pod by that name is not found\<close>).
\<close>

theorem GetPodStatus_not_found:
  "GetPodStatus (example_Provider (\<lambda>name. Inl ErrDefault404) []) ''ns1'' ''web''
     = ([], Inl ErrDefault404)"
  by (simp add: GetPodStatus_def GetPod_def example_Provider_def)

subsection \<open>The name of the capsule\<close>

text \<open>
  Claim C5. \<^verbatim>\<open>GetPod\<close>, \<^verbatim>\<open>DeletePod\<close> and \<^verbatim>\<open>CreatePod\<close> all give the remote API the name made
  of the namespace, a hyphen and the name of the pod, which is also the \<^verbatim>\<open>MetaName\<close> of the
  capsule created. The name depends on the namespace and the name only: changing the UID,
  the timestamp, the cluster name, the spec or the status of the pod leaves it the same.
\<close>

theorem operations_address_one_name:
  "GetPod p namespace name =
     (case capsules_Get (p_ZunClient p) (namespace @ ''-'' @ name) of
        Inl err \<Rightarrow> ([], Inl err)
      | Inr capsule \<Rightarrow> (fst (capsuleToPod capsule), map_sum id Some (snd (capsuleToPod capsule))))
   \<and> DeletePod p pod =
       capsules_Delete (p_ZunClient p) (Namespace (Meta pod) @ ''-'' @ Name (Meta pod))
   \<and> (\<exists>capsule.
         CreatePod_request lib limits pod
           = Inr (Namespace (Meta pod) @ ''-'' @ Name (Meta pod), capsule)
         \<and> MetaName capsule = Namespace (Meta pod) @ ''-'' @ Name (Meta pod)
         \<and> CreatePod p lib limits pod
           = CreateContainerGroup (p_ZunClient p)
               (Namespace (Meta pod) @ ''-'' @ Name (Meta pod)) capsule)
   \<and> DeletePod p
       (pod\<lparr>Meta := (Meta pod)\<lparr>UID := uid, CreationTimestamp := t, ClusterName := cluster\<rparr>,
            Spec := spec, Status := status\<rparr>) = DeletePod p pod
   \<and> fst (projr (CreatePod_request lib limits
       (pod\<lparr>Meta := (Meta pod)\<lparr>UID := uid, CreationTimestamp := t, ClusterName := cluster\<rparr>,
            Spec := spec, Status := status\<rparr>)))
       = fst (projr (CreatePod_request lib limits pod))"
  by (simp add: GetPod_def DeletePod_def CreatePod_def CreatePod_request_def getContainers_def
      Sprintf_s_s_def split: sum.splits prod.splits)

subsection \<open>Pod to capsule\<close>

lemma MustParse_500m: "MustParse ''500m'' = Some (Quantity (1 / 2))"
  by (simp add: MustParse_def split_sign_def is_digit_def digit_val_def
      digits_value_def suffix_multiplier_def)

lemma MustParse_256Mi: "MustParse ''256Mi'' = Some (Quantity 268435456)"
  by (simp add: MustParse_def split_sign_def is_digit_def digit_val_def
      digits_value_def suffix_multiplier_def)

text \<open>
  For every pod and every library: a container without limits leaves the CPU and memory
  fields of its container in the request unset, and a limit that is present sets the
  corresponding field.
\<close>

lemma getContainers_loop_limits:
  "\<exists>out. getContainers_loop lib ks limits acc = acc @ out
     \<and> list_all2 (limits_applied lib) ks out"
proof (induction ks arbitrary: limits acc)
  case Nil
  then show ?case by simp
next
  case (Cons k ks)
  obtain cpuLimit memoryLimit where l: "limits = (cpuLimit, memoryLimit)" by (cases limits)
  show ?case
  proof (cases "Limits (c_Resources k)")
    case None
    let ?c = "zero_capsules_Container
            \<lparr>cc_Name := c_Name k, cc_Image := c_Image k,
             cc_Command := c_Command k @ c_Args k, cc_WorkDir := c_WorkingDir k,
             cc_ImagePullPolicy := c_ImagePullPolicy k,
             cc_Environment := foldl (\<lambda>m e. m(ev_Name e \<mapsto> ev_Value e)) Map.empty (c_Env k)\<rparr>"
    from Cons.IH [of "(cpuLimit, memoryLimit)" "acc @ [?c]"]
    obtain out where o:
      "getContainers_loop lib ks (cpuLimit, memoryLimit) (acc @ [?c]) = (acc @ [?c]) @ out"
      "list_all2 (limits_applied lib) ks out" by blast
    have "limits_applied lib k ?c"
      using None by (simp add: limits_applied_def zero_capsules_Container_def)
    with o None l show ?thesis by (simp add: Let_def)
  next
    case (Some lm)
    let ?cpu = "if lm ''cpu'' \<noteq> None then real_of_int (MilliValue lib (Cpu lm)) / 1000
                else cpuLimit"
    let ?mem = "if lm ''memory'' \<noteq> None then real_of_int (Value lib (Memory lm)) / 1000000000
                else memoryLimit"
    let ?c = "zero_capsules_Container
            \<lparr>cc_Name := c_Name k, cc_Image := c_Image k,
             cc_Command := c_Command k @ c_Args k, cc_WorkDir := c_WorkingDir k,
             cc_ImagePullPolicy := c_ImagePullPolicy k,
             cc_Environment := foldl (\<lambda>m e. m(ev_Name e \<mapsto> ev_Value e)) Map.empty (c_Env k),
             cc_CPU := ?cpu, cc_Memory := ?mem * 1024\<rparr>"
    from Cons.IH [of "(?cpu, ?mem)" "acc @ [?c]"]
    obtain out where o: "getContainers_loop lib ks (?cpu, ?mem) (acc @ [?c]) = (acc @ [?c]) @ out"
      "list_all2 (limits_applied lib) ks out" by blast
    have "limits_applied lib k ?c"
      using Some by (auto simp: limits_applied_def Cpu_def Memory_def)
    with o Some l show ?thesis by (simp add: Let_def)
  qed
qed

text \<open>
  The scenario of claim C6, which holds. The request for the pod of the scenario is
  addressed to the name \<^verbatim>\<open>ns1-web\<close>; its one container has the CPU 0.5, and a \<^verbatim>\<open>Memory\<close>
  field that is 0.268435456 GB (the 256Mi of the limit, divided by \<open>10 ^ 9\<close>) multiplied
  by 1024, within 5 percent of 0.256 GB.
\<close>

lemma scenario_containers:
  "getContainers_loop example_Library (Containers (Spec scenario_Pod)) limits [] =
     [zero_capsules_Container\<lparr>cc_Name := ''c1'', cc_Image := ''nginx'', cc_CPU := 1 / 2,
        cc_Memory := 268435456 / 1000000000 * 1024\<rparr>]"
proof -
  obtain a b where "limits = (a, b)" by (cases limits)
  then show ?thesis
    by (simp add: scenario_Pod_def MustParse_500m MustParse_256Mi Let_def Cpu_def Memory_def
        example_Library_def round_away_def zero_capsules_Container_def)
qed

lemma scenario_request:
  "\<exists>capsule c.
      CreatePod_request example_Library limits scenario_Pod = Inr (''ns1-web'', capsule)
      \<and> MetaName capsule = ''ns1-web''
      \<and> cap_Containers capsule = [c] \<and> cc_Name c = ''c1'' \<and> cc_Image c = ''nginx''
      \<and> cc_CPU c = 500 / 1000
      \<and> cc_Memory c / 1024 = 268435456 / 1000000000
      \<and> \<bar>cc_Memory c / 1024 - 256 / 1000\<bar> \<le> 5 / 100 * (256 / 1000)"
  by (simp add: CreatePod_request_def getContainers_def scenario_containers Sprintf_s_s_def)
    (simp add: scenario_Pod_def)

text \<open>
  Claim C6, at a pod whose second container has limits that name the memory and not the
  CPU. The claim says that the CPU field of a container of the request is set only when
  the CPU limit is present. The source tests for the presence of each limit, but assigns
  both fields after the two tests, for every container whose limits are not nil, from
  variables that keep the value of an earlier container. So the container of the request
  made for the second container has the CPU of the first, for every library and whatever
  the variables held on entry; with the instance of the library it is 0.5.
\<close>

theorem getContainers_sets_absent_limit:
  "the (Limits (c_Resources (last (Containers (Spec carried_Pod))))) ''cpu'' = None
   \<and> map cc_CPU (getContainers_loop lib (Containers (Spec carried_Pod)) limits []) =
       [real_of_int (MilliValue lib (Quantity (1 / 2))) / 1000,
        real_of_int (MilliValue lib (Quantity (1 / 2))) / 1000]
   \<and> map cc_CPU (cap_Containers (snd (projr
         (CreatePod_request example_Library limits carried_Pod)))) = [1 / 2, 1 / 2]"
proof -
  obtain a b where l: "limits = (a, b)" by (cases limits)
  have 1: "the (Limits (c_Resources (last (Containers (Spec carried_Pod))))) ''cpu'' = None"
    by (simp add: carried_Pod_def scenario_Pod_def)
  have 2: "map cc_CPU (getContainers_loop lib (Containers (Spec carried_Pod)) limits []) =
       [real_of_int (MilliValue lib (Quantity (1 / 2))) / 1000,
        real_of_int (MilliValue lib (Quantity (1 / 2))) / 1000]" for lib
    using l
    by (simp add: carried_Pod_def scenario_Pod_def MustParse_500m MustParse_256Mi Let_def
        Cpu_def Memory_def zero_capsules_Container_def)
  have 3: "map cc_CPU (cap_Containers (snd (projr
         (CreatePod_request example_Library limits carried_Pod)))) = [1 / 2, 1 / 2]"
    by (simp add: CreatePod_request_def getContainers_def 2)
      (simp add: example_Library_def round_away_def)
  from 1 2 3 show ?thesis by blast
qed

end
